theory Spec2Isabelle
  imports Main
begin

section \<open>Python values crossing the trust boundary\<close>

text \<open>
  The proof elements reach the verifier as untyped Python values (the request model
  declares the proof as a dictionary of arbitrary JSON), and the verifier inspects them
  with \<open>isinstance\<close> and \<open>len\<close>. The values are therefore modelled dynamically:
  an integer, a string, a list, a tuple, or an object of some other class (its class
  name and the integers it holds), for which every \<open>isinstance\<close> test of the source
  answers no.
\<close>

datatype pyval =
    PInt int
  | PStr string
  | PList "pyval list"
  | PTuple "pyval list"
  | PObj string "int list"

section \<open>The curve library\<close>

text \<open>
  \<open>py_ecc.bn128\<close> is an external library. The source uses three things of it: the
  constant \<open>curve_order\<close>, and \<open>multiply\<close> applied to the generators \<open>G1\<close> and
  \<open>G2\<close>. They are parameters of the model.
\<close>

record bn128 =
  curve_order :: int
  multiply_G1 :: "int \<Rightarrow> pyval"
  multiply_G2 :: "int \<Rightarrow> pyval"

section \<open>zksnark\_age\_verification.py\<close>

subsection \<open>Data classes\<close>

record TrustedSetup =
  alpha :: int
  beta :: int
  gamma :: int
  delta :: int
  gamma_abc :: "pyval list"
  ic :: "pyval list"

record Proof =
  a :: pyval
  b :: pyval
  c :: pyval

subsection \<open>Randomness\<close>

text \<open>
  Every call of \<open>random.randint(1, curve_order - 1)\<close> and of \<open>secrets.token_hex\<close>
  returns a value the program does not control. The values drawn are arguments of the
  model, one field per call, in the order of the calls.
\<close>

record setup_draws =
  draw_alpha :: int
  draw_beta :: int
  draw_gamma :: int
  draw_delta :: int
  draw_gamma_abc :: "nat \<Rightarrow> int"
  draw_ic :: "nat \<Rightarrow> int"

record proof_draws =
  draw_r :: int
  draw_s :: int
  draw_a_val :: int
  draw_b_val :: int
  draw_c_val :: int

subsection \<open>ZKSNARKAgeCircuit\<close>

record ZKSNARKAgeCircuit =
  circuit_setup :: TrustedSetup
  field_size :: int

definition generate_trusted_setup :: "bn128 \<Rightarrow> setup_draws \<Rightarrow> TrustedSetup" where
  "generate_trusted_setup lib d =
     \<lparr> alpha = draw_alpha d,
       beta = draw_beta d,
       gamma = draw_gamma d,
       delta = draw_delta d,
       gamma_abc = map (\<lambda>i. multiply_G1 lib (draw_gamma_abc d i)) [0..<3],
       ic = map (\<lambda>i. multiply_G1 lib (draw_ic d i)) [0..<3] \<rparr>"

definition ZKSNARKAgeCircuit_init :: "bn128 \<Rightarrow> setup_draws \<Rightarrow> ZKSNARKAgeCircuit" where
  "ZKSNARKAgeCircuit_init lib d =
     \<lparr> circuit_setup = generate_trusted_setup lib d, field_size = curve_order lib \<rparr>"

definition age_constraint_circuit :: "int \<Rightarrow> int \<Rightarrow> bool" where
  "age_constraint_circuit actual_age minimum_age \<longleftrightarrow> actual_age \<ge> minimum_age"

record witness =
  w_actual_age :: int
  w_minimum_age :: int
  w_result :: int
  w_intermediate :: int

definition polynomial_evaluation :: "ZKSNARKAgeCircuit \<Rightarrow> int \<Rightarrow> int \<Rightarrow> witness" where
  "polynomial_evaluation self actual_age minimum_age =
     (let result = (if actual_age \<ge> minimum_age then 1 else 0) in
      \<lparr> w_actual_age = actual_age mod field_size self,
        w_minimum_age = minimum_age mod field_size self,
        w_result = result,
        w_intermediate = (actual_age - minimum_age) mod field_size self \<rparr>)"

text \<open>
  \<open>generate_proof\<close> returns \<open>None\<close> when the constraint fails. Otherwise it computes
  the witness (and never reads it again), draws \<open>r\<close>, \<open>s\<close>, \<open>a_val\<close>, \<open>b_val\<close>,
  \<open>c_val\<close>, and returns the three points with the public inputs
  \<open>[minimum_age, 1]\<close>.
\<close>

definition generate_proof ::
  "bn128 \<Rightarrow> ZKSNARKAgeCircuit \<Rightarrow> proof_draws \<Rightarrow> int \<Rightarrow> int \<Rightarrow> (Proof \<times> int list) option" where
  "generate_proof lib self d actual_age minimum_age =
     (if \<not> age_constraint_circuit actual_age minimum_age then None
      else
        let witness = polynomial_evaluation self actual_age minimum_age;
            r = draw_r d;
            s = draw_s d;
            proof_a = multiply_G1 lib (draw_a_val d);
            proof_b = multiply_G2 lib (draw_b_val d);
            proof_c = multiply_G1 lib (draw_c_val d);
            proof = \<lparr> a = proof_a, b = proof_b, c = proof_c \<rparr>;
            public_inputs = [minimum_age, 1]
        in Some (proof, public_inputs))"

text \<open>
  The \<open>isinstance\<close> tests of the source: \<open>isinstance(x, int)\<close>, and
  \<open>isinstance(x, (tuple, list))\<close>, which \<open>seq_items\<close> answers together with the
  members.
\<close>

fun isinstance_int :: "pyval \<Rightarrow> bool" where
  "isinstance_int (PInt i) = True"
| "isinstance_int v = False"

fun seq_items :: "pyval \<Rightarrow> pyval list option" where
  "seq_items (PTuple xs) = Some xs"
| "seq_items (PList xs) = Some xs"
| "seq_items v = None"

text \<open>
  \<open>coord1 + coord2\<close> concatenates two tuples or two lists; Python raises
  \<open>TypeError\<close> for a tuple and a list (here \<open>None\<close>).
\<close>

fun py_concat :: "pyval \<Rightarrow> pyval \<Rightarrow> pyval list option" where
  "py_concat (PTuple xs) (PTuple ys) = Some (xs @ ys)"
| "py_concat (PList xs) (PList ys) = Some (xs @ ys)"
| "py_concat u v = None"

text \<open>
  \<open>_is_valid_g1_point\<close>: a tuple or list of length two whose two members are
  integers.
\<close>

definition is_valid_g1_point :: "pyval \<Rightarrow> bool" where
  "is_valid_g1_point point =
     (case seq_items point of
        Some [x, y] \<Rightarrow> isinstance_int x \<and> isinstance_int y
      | _ \<Rightarrow> False)"

text \<open>
  \<open>_is_valid_g2_point\<close>: a tuple or list of length two. When both members are
  themselves tuples or lists of length two, their four members must be integers (and
  a tuple beside a list makes the concatenation raise, which the bare \<open>except\<close>
  turns into \<open>False\<close>); any other pair of members is accepted as it is.
\<close>

definition is_valid_g2_point :: "pyval \<Rightarrow> bool" where
  "is_valid_g2_point point =
     (case seq_items point of
        Some [coord1, coord2] \<Rightarrow>
          (case (seq_items coord1, seq_items coord2) of
             (Some [x1, y1], Some [x2, y2]) \<Rightarrow>
               (case py_concat coord1 coord2 of
                  Some xs \<Rightarrow> list_all isinstance_int xs
                | None \<Rightarrow> False)
           | _ \<Rightarrow> True)
      | _ \<Rightarrow> False)"

text \<open>
  \<open>verify_proof\<close>. Unpacking \<open>minimum_age, result = public_inputs\<close> raises unless
  the list has exactly two members, and the \<open>except\<close> clause returns \<open>False\<close>.
  The function never reads \<open>self.setup\<close> and calls no pairing.
\<close>

definition verify_proof :: "ZKSNARKAgeCircuit \<Rightarrow> Proof \<Rightarrow> int list \<Rightarrow> bool" where
  "verify_proof self proof public_inputs =
     (case public_inputs of
        [minimum_age, result] \<Rightarrow>
          if result \<noteq> 1 then False
          else
            let g1_a_valid = is_valid_g1_point (a proof);
                g2_b_valid = is_valid_g2_point (b proof);
                g1_c_valid = is_valid_g1_point (c proof)
            in
              if \<not> (g1_a_valid \<and> g2_b_valid \<and> g1_c_valid) then False
              else if length public_inputs \<ge> 2 then
                (let minimum_age_input = public_inputs ! 0;
                     result_input = public_inputs ! 1
                 in if result_input = 1 \<and> minimum_age_input \<ge> 0 then True else False)
              else False
      | _ \<Rightarrow> False)"

subsection \<open>ZKSNARKAgeVerifier\<close>

record ZKSNARKAgeVerifier =
  circuit :: ZKSNARKAgeCircuit
  active_challenges :: "string \<rightharpoonup> bool"

definition ZKSNARKAgeVerifier_init :: "bn128 \<Rightarrow> setup_draws \<Rightarrow> ZKSNARKAgeVerifier" where
  "ZKSNARKAgeVerifier_init lib d =
     \<lparr> circuit = ZKSNARKAgeCircuit_init lib d, active_challenges = Map.empty \<rparr>"

text \<open>
  \<open>generate_challenge\<close>: the token is what \<open>secrets.token_hex(32)\<close> returned. No
  time of issue and no time-to-live is stored with it.
\<close>

definition generate_challenge ::
  "ZKSNARKAgeVerifier \<Rightarrow> string \<Rightarrow> string \<times> ZKSNARKAgeVerifier" where
  "generate_challenge self token =
     (token, self\<lparr>active_challenges := (active_challenges self)(token \<mapsto> True)\<rparr>)"

text \<open>
  The bundle that \<open>client_generate_proof\<close> packages and \<open>server_verify_proof\<close>
  receives: the dictionary with the keys \<open>proof\<close>, \<open>public_inputs\<close>,
  \<open>challenge\<close> and \<open>timestamp\<close>. The inner dictionary \<open>proof\<close> is a map from
  keys to values, since the server looks up \<open>a\<close>, \<open>b\<close> and \<open>c\<close> in whatever
  the client sent.
\<close>

record proof_data =
  pd_proof :: "string \<rightharpoonup> pyval"
  pd_public_inputs :: "int list"
  pd_challenge :: string
  pd_timestamp :: string

definition client_generate_proof ::
  "bn128 \<Rightarrow> ZKSNARKAgeVerifier \<Rightarrow> proof_draws \<Rightarrow> string \<Rightarrow> int \<Rightarrow> int \<Rightarrow> string
     \<Rightarrow> proof_data option" where
  "client_generate_proof lib self d timestamp_token actual_age minimum_age challenge =
     (case generate_proof lib (circuit self) d actual_age minimum_age of
        None \<Rightarrow> None
      | Some (proof, public_inputs) \<Rightarrow>
          Some \<lparr> pd_proof = [''a'' \<mapsto> a proof, ''b'' \<mapsto> b proof, ''c'' \<mapsto> c proof],
                 pd_public_inputs = public_inputs,
                 pd_challenge = challenge,
                 pd_timestamp = timestamp_token \<rparr>)"

text \<open>\<open>tuple(v) if isinstance(v, list) else v\<close>\<close>

fun list_to_tuple :: "pyval \<Rightarrow> pyval" where
  "list_to_tuple (PList xs) = PTuple xs"
| "list_to_tuple v = v"

fun convert_b_point :: "pyval \<Rightarrow> pyval" where
  "convert_b_point (PList coords) = PTuple (map list_to_tuple coords)"
| "convert_b_point v = v"

text \<open>
  \<open>server_verify_proof\<close> returns the verdict and the verifier with the challenge
  removed. The challenge is deleted before the \<open>try\<close> block, so it is consumed
  whatever the verdict. A missing key \<open>a\<close>, \<open>b\<close> or \<open>c\<close> raises
  \<open>KeyError\<close>, which the \<open>except\<close> clause turns into \<open>False\<close>. The field
  \<open>challenge\<close> of the bundle is never read.
\<close>

definition server_verify_proof ::
  "ZKSNARKAgeVerifier \<Rightarrow> proof_data \<Rightarrow> string \<Rightarrow> bool \<times> ZKSNARKAgeVerifier" where
  "server_verify_proof self proof_data challenge =
     (if active_challenges self challenge = None then (False, self)
      else
        let self' = self\<lparr>active_challenges := (active_challenges self)(challenge := None)\<rparr>;
            proof_dict = pd_proof proof_data
        in
          (case (proof_dict ''a'', proof_dict ''b'', proof_dict ''c'') of
             (Some pa, Some pb, Some pc) \<Rightarrow>
               let a_point = list_to_tuple pa;
                   b_point = convert_b_point pb;
                   c_point = list_to_tuple pc;
                   proof = \<lparr> a = a_point, b = b_point, c = c_point \<rparr>;
                   public_inputs = pd_public_inputs proof_data;
                   is_valid = verify_proof (circuit self') proof public_inputs
               in (is_valid, self')
           | _ \<Rightarrow> (False, self')))"

section \<open>zksnark\_main.py\<close>

subsection \<open>Request and response models\<close>

record ChallengeRequest =
  creq_minimum_age :: int

record ChallengeResponse =
  cresp_challenge :: string
  cresp_minimum_age :: int
  cresp_session_id :: string
  cresp_message :: string

record ZKProofRequest =
  zreq_proof :: "string \<rightharpoonup> pyval"
  zreq_public_inputs :: "int list"
  zreq_challenge :: string
  zreq_session_id :: string

record verification_details =
  vd_zkp_type :: string
  vd_proof_verified :: bool
  vd_server_learned_age :: bool
  vd_minimum_age_required :: int
  vd_cryptographic_security :: string
  vd_session_id :: string

record ZKProofResponse =
  is_valid :: bool
  message :: string
  details :: verification_details

text \<open>\<open>HTTPException(status_code, detail)\<close>\<close>

datatype HTTPException = HTTPException nat string

subsection \<open>Sessions\<close>

text \<open>
  A session is the dictionary stored under the session id. The keys \<open>result\<close> and
  \<open>verified_at\<close> are absent until a verification has run. Times are the strings
  that \<open>datetime.now().isoformat()\<close> returned; the program stores them and never
  compares them.
\<close>

record session =
  s_challenge :: string
  s_minimum_age :: int
  s_created_at :: string
  s_status :: string
  s_result :: "bool option"
  s_verified_at :: "string option"

text \<open>The two module-level variables of the server.\<close>

record server_state =
  zksnark_verifier :: ZKSNARKAgeVerifier
  active_sessions :: "string \<rightharpoonup> session"

definition server_init :: "bn128 \<Rightarrow> setup_draws \<Rightarrow> server_state" where
  "server_init lib d =
     \<lparr> zksnark_verifier = ZKSNARKAgeVerifier_init lib d, active_sessions = Map.empty \<rparr>"

subsection \<open>Endpoints\<close>

text \<open>
  \<open>request_challenge\<close>: \<open>challenge_token\<close> and \<open>session_token\<close> are what
  \<open>secrets.token_hex\<close> returned, \<open>now\<close> is the clock reading.
\<close>

definition request_challenge ::
  "server_state \<Rightarrow> ChallengeRequest \<Rightarrow> string \<Rightarrow> string \<Rightarrow> string
     \<Rightarrow> ChallengeResponse \<times> server_state" where
  "request_challenge st request challenge_token session_token now =
     (let (challenge, verifier') = generate_challenge (zksnark_verifier st) challenge_token;
          session_id = session_token;
          sess = \<lparr> s_challenge = challenge,
                   s_minimum_age = creq_minimum_age request,
                   s_created_at = now,
                   s_status = ''pending'',
                   s_result = None,
                   s_verified_at = None \<rparr>
      in (\<lparr> cresp_challenge = challenge,
            cresp_minimum_age = creq_minimum_age request,
            cresp_session_id = session_id,
            cresp_message = ''Challenge generated. Generate proof on client side.'' \<rparr>,
          st\<lparr> zksnark_verifier := verifier',
               active_sessions := (active_sessions st)(session_id \<mapsto> sess) \<rparr>))"

text \<open>
  The two response messages end with an emoji, written here as its UTF-8 bytes.
\<close>

definition msg_success :: string where
  "msg_success = ''Age verification successful '' @ [CHR 0xE2, CHR 0x9C, CHR 0x85]"

definition msg_invalid :: string where
  "msg_invalid = ''Invalid proof '' @ [CHR 0xE2, CHR 0x9D, CHR 0x8C]"

text \<open>
  \<open>verify_zkproof\<close>: the three gates raise \<open>HTTPException(400, ...)\<close> and leave the
  state as it was. Past them, the verdict of \<open>server_verify_proof\<close> is returned in
  an ordinary response, and the session is marked completed. The status of the session
  and its \<open>created_at\<close> are not read. \<open>now_submit\<close> and \<open>now_verified\<close> are the
  two clock readings.
\<close>

definition verify_zkproof ::
  "server_state \<Rightarrow> ZKProofRequest \<Rightarrow> string \<Rightarrow> string
     \<Rightarrow> (HTTPException + ZKProofResponse) \<times> server_state" where
  "verify_zkproof st request now_submit now_verified =
     (case active_sessions st (zreq_session_id request) of
        None \<Rightarrow> (Inl (HTTPException 400 ''Invalid session ID''), st)
      | Some sess \<Rightarrow>
          if s_challenge sess \<noteq> zreq_challenge request
          then (Inl (HTTPException 400 ''Challenge mismatch''), st)
          else if length (zreq_public_inputs request) < 1
                  \<or> zreq_public_inputs request ! 0 \<noteq> s_minimum_age sess
          then (Inl (HTTPException 400 ''Minimum age mismatch''), st)
          else
            let proof_data = \<lparr> pd_proof = zreq_proof request,
                               pd_public_inputs = zreq_public_inputs request,
                               pd_challenge = zreq_challenge request,
                               pd_timestamp = now_submit \<rparr>;
                (is_valid, verifier') =
                   server_verify_proof (zksnark_verifier st) proof_data (zreq_challenge request);
                sess' = sess\<lparr> s_status := ''completed'',
                               s_result := Some is_valid,
                               s_verified_at := Some now_verified \<rparr>;
                verification_details =
                  \<lparr> vd_zkp_type = ''zk-SNARKs'',
                    vd_proof_verified = is_valid,
                    vd_server_learned_age = False,
                    vd_minimum_age_required = s_minimum_age sess',
                    vd_cryptographic_security = ''Bilinear pairings on elliptic curves'',
                    vd_session_id = zreq_session_id request \<rparr>
            in (Inr \<lparr> is_valid = is_valid,
                       message = (if is_valid then msg_success else msg_invalid),
                       details = verification_details \<rparr>,
                st\<lparr> zksnark_verifier := verifier',
                     active_sessions :=
                       (active_sessions st)(zreq_session_id request \<mapsto> sess') \<rparr>))"

section \<open>One round of the protocol, as the demonstration runs it\<close>

text \<open>
  \<open>demo_zksnark_age_verification\<close> runs, for each test case: the server generates a
  challenge, the client generates a proof for it, and if there is one the server
  verifies it against the same challenge. \<open>demo_round\<close> is one such test case; it
  returns \<open>None\<close> when no proof could be generated, else the verdict.
\<close>

definition demo_round ::
  "bn128 \<Rightarrow> ZKSNARKAgeVerifier \<Rightarrow> string \<Rightarrow> proof_draws \<Rightarrow> string \<Rightarrow> int \<Rightarrow> int
     \<Rightarrow> bool option" where
  "demo_round lib verifier token d timestamp_token user_age minimum_age =
     (let (challenge, verifier1) = generate_challenge verifier token in
      case client_generate_proof lib verifier1 d timestamp_token user_age minimum_age challenge of
        None \<Rightarrow> None
      | Some proof_data \<Rightarrow> Some (fst (server_verify_proof verifier1 proof_data challenge)))"

section \<open>Concrete inputs\<close>

text \<open>
  To evaluate the model, the library parameters need values. \<open>field_lib\<close> returns
  points of the shape that \<open>multiply\<close> of \<open>py_ecc.bn128\<close> returns: a G1 point is
  a tuple of two field elements, objects of the class \<open>bn128_FQ\<close>, and a G2 point a
  tuple of two objects of the class \<open>bn128_FQ2\<close>; neither class is \<open>int\<close>,
  \<open>tuple\<close> or \<open>list\<close>. It has the order of BN128 as \<open>curve_order\<close>. The
  integers inside the objects are placeholders: the library's curve arithmetic is not
  modelled, and none of the source's own code depends on it.
\<close>

definition field_lib :: bn128 where
  "field_lib =
     \<lparr> curve_order =
         21888242871839275222246405745257275088548364400416034343698204186575808495617,
       multiply_G1 = (\<lambda>k. PTuple [PObj ''bn128_FQ'' [k], PObj ''bn128_FQ'' [2 * k]]),
       multiply_G2 =
         (\<lambda>k. PTuple [PObj ''bn128_FQ2'' [k, 0], PObj ''bn128_FQ2'' [0, k]]) \<rparr>"

definition setup_draws0 :: setup_draws where
  "setup_draws0 =
     \<lparr> draw_alpha = 2, draw_beta = 3, draw_gamma = 5, draw_delta = 7,
       draw_gamma_abc = (\<lambda>i. 20 + int i), draw_ic = (\<lambda>i. 30 + int i) \<rparr>"

definition proof_draws0 :: proof_draws where
  "proof_draws0 =
     \<lparr> draw_r = 11, draw_s = 12, draw_a_val = 13, draw_b_val = 14, draw_c_val = 15 \<rparr>"

definition circuit0 :: ZKSNARKAgeCircuit where
  "circuit0 = ZKSNARKAgeCircuit_init field_lib setup_draws0"

definition verifier0 :: ZKSNARKAgeVerifier where
  "verifier0 = ZKSNARKAgeVerifier_init field_lib setup_draws0"

definition server0 :: server_state where
  "server0 = server_init field_lib setup_draws0"

text \<open>A verifier at which the two challenges \<open>c1\<close> and \<open>c2\<close> are active.\<close>

definition verifier_c1_c2 :: ZKSNARKAgeVerifier where
  "verifier_c1_c2 = snd (generate_challenge (snd (generate_challenge verifier0 ''c1'')) ''c2'')"


text \<open>
  A session of the server: a challenge \<open>c1\<close> was requested for the threshold 18
  (or 21) under the session id \<open>s1\<close>, and \<open>request18\<close> submits, with the public
  inputs \<open>[18, 1]\<close>, a proof whose coordinates are JSON integers (lists for
  tuples), as the request model admits them. \<open>junk_request18\<close> is the same request
  with three strings for points.
\<close>

definition request18 :: ZKProofRequest where
  "request18 =
     \<lparr> zreq_proof = [''a'' \<mapsto> PList [PInt 13, PInt 26],
                      ''b'' \<mapsto> PList [PList [PInt 14, PInt 0], PList [PInt 0, PInt 14]],
                      ''c'' \<mapsto> PList [PInt 15, PInt 30]],
       zreq_public_inputs = [18, 1],
       zreq_challenge = ''c1'',
       zreq_session_id = ''s1'' \<rparr>"

definition server_pending18 :: server_state where
  "server_pending18 =
     snd (request_challenge server0 \<lparr> creq_minimum_age = 18 \<rparr> ''c1'' ''s1'' ''2024-01-01T00:00:00'')"

definition session18 :: session where
  "session18 =
     \<lparr> s_challenge = ''c1'', s_minimum_age = 18, s_created_at = ''2024-01-01T00:00:00'',
       s_status = ''pending'', s_result = None, s_verified_at = None \<rparr>"

definition session21 :: session where
  "session21 = session18\<lparr> s_minimum_age := 21 \<rparr>"

definition junk_request18 :: ZKProofRequest where
  "junk_request18 =
     request18\<lparr> zreq_proof := [''a'' \<mapsto> PStr ''junk'', ''b'' \<mapsto> PStr ''junk'',
                                 ''c'' \<mapsto> PStr ''junk''] \<rparr>"

text \<open>The request whose proof has zero for every coordinate.\<close>

definition zero_request18 :: ZKProofRequest where
  "zero_request18 =
     request18\<lparr> zreq_proof := [''a'' \<mapsto> PList [PInt 0, PInt 0],
                                 ''b'' \<mapsto> PList [PList [PInt 0, PInt 0], PList [PInt 0, PInt 0]],
                                 ''c'' \<mapsto> PList [PInt 0, PInt 0]] \<rparr>"

definition server_pending21 :: server_state where
  "server_pending21 =
     snd (request_challenge server0 \<lparr> creq_minimum_age = 21 \<rparr> ''c1'' ''s1'' ''2024-01-01T00:00:00'')"

section \<open>Soundness of proof generation\<close>

text \<open>
  C2. Whenever \<open>actual_age < minimum_age\<close>, \<open>generate_proof\<close> returns \<open>None\<close>,
  and so does \<open>client_generate_proof\<close>: no proof artifact is produced for the false
  statement, whatever the library, the circuit, the random draws and the challenge.
\<close>

theorem generate_proof_refuses_underage:
  assumes "actual_age < minimum_age"
  shows "generate_proof lib self d actual_age minimum_age = None
         \<and> client_generate_proof lib v d ts actual_age minimum_age challenge = None"
  using assms
  by (simp add: generate_proof_def client_generate_proof_def age_constraint_circuit_def)

theorem generate_proof_refuses_underage_witness:
  "(16::int) < 18
   \<and> generate_proof field_lib circuit0 proof_draws0 16 18 = None
   \<and> client_generate_proof field_lib verifier0 proof_draws0 ''ts'' 16 18 ''c1'' = None"
  using generate_proof_refuses_underage
          [of 16 18 field_lib circuit0 proof_draws0 verifier0 "''ts''" "''c1''"]
  by simp

section \<open>What the verifier checks\<close>

text \<open>
  \<open>verify_proof\<close> accepts exactly the two-member public inputs \<open>[m, 1]\<close> with
  \<open>m\<close> not negative, together with three proof elements of the right shape.
\<close>

lemma verify_proof_char:
  "verify_proof self proof public_inputs \<longleftrightarrow>
     length public_inputs = 2 \<and> public_inputs ! 1 = 1 \<and> 0 \<le> public_inputs ! 0
     \<and> is_valid_g1_point (a proof) \<and> is_valid_g2_point (b proof) \<and> is_valid_g1_point (c proof)"
proof (cases public_inputs)
  case Nil
  then show ?thesis by (simp add: verify_proof_def)
next
  case (Cons m rest)
  note outer = Cons
  show ?thesis
  proof (cases rest)
    case Nil
    with outer show ?thesis by (simp add: verify_proof_def)
  next
    case (Cons r rest')
    with outer show ?thesis
      by (cases rest') (auto simp add: verify_proof_def Let_def)
  qed
qed

text \<open>The conversions of \<open>server_verify_proof\<close> keep a valid point valid.\<close>

lemma g1_list_to_tuple: "is_valid_g1_point (list_to_tuple p) = is_valid_g1_point p"
  by (cases p) (simp_all add: is_valid_g1_point_def)

lemma seq_items_list_to_tuple: "seq_items (list_to_tuple p) = seq_items p"
  by (cases p) simp_all

lemma py_concat_list_to_tuple:
  "seq_items u = Some xs \<Longrightarrow> seq_items v = Some ys \<Longrightarrow>
     py_concat (list_to_tuple u) (list_to_tuple v) = Some (xs @ ys)"
  by (cases u; cases v) simp_all

lemma py_concat_items:
  "py_concat u v = Some zs \<Longrightarrow> seq_items u = Some xs \<Longrightarrow> seq_items v = Some ys \<Longrightarrow> zs = xs @ ys"
  by (cases u; cases v) simp_all

lemma g2_pair_converted:
  assumes "is_valid_g2_point (PList [c1, c2])"
  shows "is_valid_g2_point (PTuple [list_to_tuple c1, list_to_tuple c2])"
proof (cases "\<exists>x1 y1 x2 y2. seq_items c1 = Some [x1, y1] \<and> seq_items c2 = Some [x2, y2]")
  case True
  then obtain x1 y1 x2 y2 where s1: "seq_items c1 = Some [x1, y1]" and s2: "seq_items c2 = Some [x2, y2]"
    by blast
  from assms s1 s2 obtain zs where cat: "py_concat c1 c2 = Some zs" and ints: "list_all isinstance_int zs"
    by (auto simp add: is_valid_g2_point_def split: option.splits)
  from py_concat_items [OF cat s1 s2] have "zs = [x1, y1] @ [x2, y2]" .
  with ints have "list_all isinstance_int ([x1, y1] @ [x2, y2])" by simp
  with s1 s2 py_concat_list_to_tuple [OF s1 s2] show ?thesis
    by (simp add: is_valid_g2_point_def seq_items_list_to_tuple)
next
  case False
  then show ?thesis
    by (auto simp add: is_valid_g2_point_def seq_items_list_to_tuple split: option.splits list.splits)
qed

lemma g2_convert_b_point: "is_valid_g2_point p \<Longrightarrow> is_valid_g2_point (convert_b_point p)"
proof (cases p)
  case (PList coords)
  assume v: "is_valid_g2_point p"
  with PList obtain c1 c2 where "coords = [c1, c2]"
    by (auto simp add: is_valid_g2_point_def split: list.splits)
  with PList v show ?thesis using g2_pair_converted [of c1 c2] by simp
qed simp_all

lemma server_verify_proof_inactive:
  "active_challenges self challenge = None \<Longrightarrow> server_verify_proof self pd challenge = (False, self)"
  by (simp add: server_verify_proof_def)

lemma server_verify_proof_active:
  assumes "active_challenges self challenge = Some flag"
    and "pd_proof pd ''a'' = Some pa" and "pd_proof pd ''b'' = Some pb" and "pd_proof pd ''c'' = Some pc"
  shows "server_verify_proof self pd challenge =
     (verify_proof (circuit self) \<lparr> a = list_to_tuple pa, b = convert_b_point pb, c = list_to_tuple pc \<rparr> (pd_public_inputs pd),
      self\<lparr>active_challenges := (active_challenges self)(challenge := None)\<rparr>)"
  using assms by (simp add: server_verify_proof_def Let_def)


lemma verify_proof_generated:
  assumes "0 \<le> minimum_age"
    and "is_valid_g1_point pa" and "is_valid_g2_point pb" and "is_valid_g1_point pc"
  shows "verify_proof self \<lparr> a = list_to_tuple pa, b = convert_b_point pb, c = list_to_tuple pc \<rparr>
           [minimum_age, 1]"
  using assms by (simp add: verify_proof_char g1_list_to_tuple g2_convert_b_point)

lemma server_verify_proof_accepts:
  assumes "active_challenges self challenge = Some flag"
    and "pd_proof pd ''a'' = Some pa" and "pd_proof pd ''b'' = Some pb" and "pd_proof pd ''c'' = Some pc"
    and "pd_public_inputs pd = [minimum_age, 1]"
    and "0 \<le> minimum_age"
    and "is_valid_g1_point pa" and "is_valid_g2_point pb" and "is_valid_g1_point pc"
  shows "server_verify_proof self pd challenge =
           (True, self\<lparr>active_challenges := (active_challenges self)(challenge := None)\<rparr>)"
  using server_verify_proof_active [OF assms(1-4)] assms(5)
        verify_proof_generated [OF assms(6-9)]
  by simp

lemma client_generate_proof_Some:
  assumes "minimum_age \<le> actual_age"
  shows "client_generate_proof lib self d ts actual_age minimum_age challenge =
           Some \<lparr> pd_proof = [''a'' \<mapsto> multiply_G1 lib (draw_a_val d),
                              ''b'' \<mapsto> multiply_G2 lib (draw_b_val d),
                              ''c'' \<mapsto> multiply_G1 lib (draw_c_val d)],
                  pd_public_inputs = [minimum_age, 1],
                  pd_challenge = challenge,
                  pd_timestamp = ts \<rparr>"
  using assms
  by (simp add: client_generate_proof_def generate_proof_def age_constraint_circuit_def Let_def)

section \<open>The pairing equation\<close>

text \<open>
  What \<open>verify_proof\<close> computes: it returns true exactly when the public inputs are
  a list of two integers \<open>[m, 1]\<close> with \<open>0 \<le> m\<close> and the proof elements
  \<open>a\<close>, \<open>b\<close>, \<open>c\<close> pass the shape tests. The verdict is the same for every
  circuit, hence for every verification key, and the values of the coordinates do not
  enter it.
\<close>

lemma verify_proof_shape_only:
  "(verify_proof self proof public_inputs \<longleftrightarrow>
      length public_inputs = 2 \<and> public_inputs ! 1 = 1 \<and> 0 \<le> public_inputs ! 0
      \<and> is_valid_g1_point (a proof) \<and> is_valid_g2_point (b proof)
      \<and> is_valid_g1_point (c proof))
   \<and> verify_proof self' proof public_inputs = verify_proof self proof public_inputs"
  by (simp add: verify_proof_char)

text \<open>
  C1 fails on the code: \<open>verify_proof\<close> accepts proofs that satisfy no pairing
  equation, because it evaluates none. One and the same proof with the public inputs
  \<open>[18, 1]\<close> is accepted under two verification keys that differ in \<open>alpha\<close>,
  although the equation
  \<open>e(A,B) = e(alpha*G1, beta*G2) * e(sum_ic, gamma*G2) * e(C, delta*G2)\<close>, which
  the source quotes as the real check, cannot hold for both. The proof whose
  coordinates are all zero, which are not points of the curve, is accepted by
  \<open>verify_proof\<close>, and the server answers it with \<open>is_valid\<close> true.
\<close>

theorem verify_proof_accepts_without_pairing:
  "verify_proof (circuit0\<lparr>circuit_setup := (circuit_setup circuit0)\<lparr>alpha := 2\<rparr>\<rparr>)
     \<lparr> a = PTuple [PInt 13, PInt 26],
       b = PTuple [PTuple [PInt 14, PInt 0], PTuple [PInt 0, PInt 14]],
       c = PTuple [PInt 15, PInt 30] \<rparr> [18, 1]
   \<and> verify_proof (circuit0\<lparr>circuit_setup := (circuit_setup circuit0)\<lparr>alpha := 3\<rparr>\<rparr>)
     \<lparr> a = PTuple [PInt 13, PInt 26],
       b = PTuple [PTuple [PInt 14, PInt 0], PTuple [PInt 0, PInt 14]],
       c = PTuple [PInt 15, PInt 30] \<rparr> [18, 1]
   \<and> verify_proof circuit0
     \<lparr> a = PTuple [PInt 0, PInt 0],
       b = PTuple [PTuple [PInt 0, PInt 0], PTuple [PInt 0, PInt 0]],
       c = PTuple [PInt 0, PInt 0] \<rparr> [18, 1]
   \<and> fst (verify_zkproof server_pending18 zero_request18 ''t1'' ''t2'')
     = Inr \<lparr> is_valid = True, message = msg_success,
              details = \<lparr> vd_zkp_type = ''zk-SNARKs'', vd_proof_verified = True,
                          vd_server_learned_age = False, vd_minimum_age_required = 18,
                          vd_cryptographic_security = ''Bilinear pairings on elliptic curves'',
                          vd_session_id = ''s1'' \<rparr> \<rparr>"
  by (simp add: verify_zkproof_def server_pending18_def request_challenge_def
        generate_challenge_def zero_request18_def request18_def server_verify_proof_def
        verify_proof_def is_valid_g1_point_def is_valid_g2_point_def Let_def)

section \<open>Completeness\<close>

text \<open>
  The points that \<open>generate_proof\<close> returns are those of the library, as they are.
  When the point \<open>a\<close> fails the shape test of the verifier, the round of the
  demonstration ends with the verdict false, whatever the ages.
\<close>

lemma generated_proof_rejected:
  assumes "minimum_age \<le> actual_age"
    and "\<not> is_valid_g1_point (multiply_G1 lib (draw_a_val d))"
  shows "demo_round lib verifier token d ts actual_age minimum_age = Some False"
  using assms
  by (simp add: demo_round_def generate_challenge_def client_generate_proof_Some
        server_verify_proof_def Let_def verify_proof_char g1_list_to_tuple)

text \<open>
  C3 fails on the code. For the ages 25 and 18 of the demonstration's own first test
  case, \<open>generate_proof\<close> returns a proof whose points \<open>a\<close> and \<open>c\<close> are tuples
  of two field elements. \<open>_is_valid_g1_point\<close> asks for \<open>isinstance(x, int)\<close>,
  which a field element does not satisfy, so \<open>verify_proof\<close> rejects the proof and
  the first submission to \<open>server_verify_proof\<close> returns false, where the claim
  (and the demonstration, which announces that a valid proof convinces the verifier)
  has it accepted.
\<close>

theorem demo_round_rejects_generated_proof:
  "generate_proof field_lib (circuit verifier0) proof_draws0 25 18
     = Some (\<lparr> a = PTuple [PObj ''bn128_FQ'' [13], PObj ''bn128_FQ'' [26]],
                b = PTuple [PObj ''bn128_FQ2'' [14, 0], PObj ''bn128_FQ2'' [0, 14]],
                c = PTuple [PObj ''bn128_FQ'' [15], PObj ''bn128_FQ'' [30]] \<rparr>, [18, 1])
   \<and> is_valid_g1_point (PTuple [PObj ''bn128_FQ'' [13], PObj ''bn128_FQ'' [26]]) = False
   \<and> verify_proof (circuit verifier0)
         \<lparr> a = PTuple [PObj ''bn128_FQ'' [13], PObj ''bn128_FQ'' [26]],
           b = PTuple [PObj ''bn128_FQ2'' [14, 0], PObj ''bn128_FQ2'' [0, 14]],
           c = PTuple [PObj ''bn128_FQ'' [15], PObj ''bn128_FQ'' [30]] \<rparr> [18, 1] = False
   \<and> demo_round field_lib verifier0 ''c1'' proof_draws0 ''ts'' 25 18 = Some False"
  by (simp add: demo_round_def generate_challenge_def client_generate_proof_def
        generate_proof_def age_constraint_circuit_def server_verify_proof_def
        verify_proof_def Let_def field_lib_def proof_draws0_def is_valid_g1_point_def)

text \<open>
  Apart from the points: \<open>generate_proof\<close> returns the public inputs \<open>[m, 1]\<close>
  for a negative threshold \<open>m\<close> too, and \<open>verify_proof\<close> rejects them whatever the
  proof, by its test \<open>minimum_age_input >= 0\<close>.
\<close>

lemma verify_proof_negative_threshold:
  "m < 0 \<Longrightarrow> \<not> verify_proof self proof [m, 1]"
  by (simp add: verify_proof_char)

section \<open>The proof does not depend on the actual age\<close>

text \<open>
  C4. For two actual ages that both satisfy \<open>actual_age >= minimum_age\<close>, and the
  same random draws (the five of \<open>generate_proof\<close> and the timestamp token), the
  bundle returned by \<open>client_generate_proof\<close> is the same: the same proof elements,
  the same public inputs. The same holds for the pair returned by \<open>generate_proof\<close>,
  and a bundle is indeed returned.
\<close>

theorem proof_independent_of_actual_age:
  assumes "minimum_age \<le> a1" and "minimum_age \<le> a2"
  shows "client_generate_proof lib self d ts a1 minimum_age challenge
           = client_generate_proof lib self d ts a2 minimum_age challenge
         \<and> generate_proof lib (circuit self) d a1 minimum_age
             = generate_proof lib (circuit self) d a2 minimum_age
         \<and> client_generate_proof lib self d ts a1 minimum_age challenge \<noteq> None"
  using assms
  by (simp add: client_generate_proof_def generate_proof_def age_constraint_circuit_def Let_def)

theorem proof_independent_of_actual_age_witness:
  "(18::int) \<le> 19 \<and> (18::int) \<le> 65
   \<and> client_generate_proof field_lib verifier0 proof_draws0 ''ts'' 19 18 ''c1''
       = client_generate_proof field_lib verifier0 proof_draws0 ''ts'' 65 18 ''c1''
   \<and> generate_proof field_lib (circuit verifier0) proof_draws0 19 18
       = generate_proof field_lib (circuit verifier0) proof_draws0 65 18
   \<and> client_generate_proof field_lib verifier0 proof_draws0 ''ts'' 19 18 ''c1'' \<noteq> None"
proof -
  have le1: "(18::int) \<le> 19" and le2: "(18::int) \<le> 65"
    by simp_all
  show ?thesis
    using le1 le2
      proof_independent_of_actual_age
        [where lib = field_lib and self = verifier0 and d = proof_draws0
           and ts = "''ts''" and challenge = "''c1''", OF le1 le2]
    by blast
qed

section \<open>Challenge binding\<close>







text \<open>
  A bundle that records the challenge \<open>c1\<close> and whose coordinates are integers, which
  the server accepts with \<open>c1\<close>, is accepted with \<open>c2\<close> as well.
\<close>

lemma integer_bundle_other_challenge:
  "fst (server_verify_proof verifier_c1_c2
          \<lparr> pd_proof = zreq_proof request18, pd_public_inputs = [18, 1],
            pd_challenge = ''c1'', pd_timestamp = ''ts'' \<rparr> ''c1'')
   \<and> fst (server_verify_proof verifier_c1_c2
          \<lparr> pd_proof = zreq_proof request18, pd_public_inputs = [18, 1],
            pd_challenge = ''c1'', pd_timestamp = ''ts'' \<rparr> ''c2'')"
  by (simp add: verifier_c1_c2_def generate_challenge_def request18_def
        server_verify_proof_def verify_proof_def Let_def
        is_valid_g1_point_def is_valid_g2_point_def)

section \<open>Range of the ages\<close>

text \<open>
  C9 (as amended). Witness construction checks no range. \<open>generate_proof\<close> and
  \<open>client_generate_proof\<close> refuse exactly when \<open>actual_age < minimum_age\<close>, for
  all integers, and the result bit of the witness is decided by that comparison of the
  integers themselves, before anything is reduced modulo the field order.
\<close>

theorem no_range_check_on_ages:
  "(generate_proof lib self d actual_age minimum_age = None \<longleftrightarrow> actual_age < minimum_age)
   \<and> (client_generate_proof lib v d ts actual_age minimum_age challenge = None
        \<longleftrightarrow> actual_age < minimum_age)
   \<and> w_result (polynomial_evaluation self actual_age minimum_age)
       = (if actual_age < minimum_age then 0 else 1)"
  by (auto simp add: generate_proof_def client_generate_proof_def age_constraint_circuit_def
        polynomial_evaluation_def Let_def)

text \<open>
  C9 as stated fails: a proof is generated for the age 200, for the negative ages
  \<open>-3\<close> and \<open>-7\<close>, and for the age \<open>curve_order + 16\<close>, whose witness holds
  the reduced age 16 beside the result 1 for the threshold 18.
\<close>

theorem age_out_of_range_counterexample:
  "generate_proof field_lib circuit0 proof_draws0 200 18 \<noteq> None
   \<and> generate_proof field_lib circuit0 proof_draws0 (- 3) (- 7) \<noteq> None
   \<and> generate_proof field_lib circuit0 proof_draws0 (curve_order field_lib + 16) 18 \<noteq> None
   \<and> w_actual_age (polynomial_evaluation circuit0 (curve_order field_lib + 16) 18) = 16
   \<and> w_result (polynomial_evaluation circuit0 (curve_order field_lib + 16) 18) = 1"
  by (simp add: generate_proof_def age_constraint_circuit_def polynomial_evaluation_def Let_def
        circuit0_def ZKSNARKAgeCircuit_init_def field_lib_def)

section \<open>Toxic waste\<close>

text \<open>
  C10 fails on the code. The source draws the four scalars under the comment "must be
  destroyed after setup" and then returns them as the fields \<open>alpha\<close>, \<open>beta\<close>,
  \<open>gamma\<close>, \<open>delta\<close> of the \<open>TrustedSetup\<close> that the circuit keeps in
  \<open>self.setup\<close>. After the server has started with the draws 2, 3, 5 and 7, they are
  read back from its verifier.
\<close>

theorem toxic_waste_retained:
  "alpha (circuit_setup (circuit (zksnark_verifier server0))) = 2
   \<and> beta (circuit_setup (circuit (zksnark_verifier server0))) = 3
   \<and> gamma (circuit_setup (circuit (zksnark_verifier server0))) = 5
   \<and> delta (circuit_setup (circuit (zksnark_verifier server0))) = 7"
  by (simp add: server0_def server_init_def ZKSNARKAgeVerifier_init_def
        ZKSNARKAgeCircuit_init_def generate_trusted_setup_def setup_draws0_def)

section \<open>The verification endpoint\<close>

text \<open>The three gates of \<open>verify_zkproof\<close>, and what it returns past them.\<close>

lemma verify_zkproof_unknown_session:
  "active_sessions st (zreq_session_id request) = None \<Longrightarrow>
     verify_zkproof st request t1 t2 = (Inl (HTTPException 400 ''Invalid session ID''), st)"
  by (simp add: verify_zkproof_def)

lemma verify_zkproof_mismatch:
  assumes "active_sessions st (zreq_session_id request) = Some sess"
    and "s_challenge sess \<noteq> zreq_challenge request
         \<or> zreq_public_inputs request = []
         \<or> zreq_public_inputs request ! 0 \<noteq> s_minimum_age sess"
  shows "\<exists>detail. verify_zkproof st request t1 t2 = (Inl (HTTPException 400 detail), st)"
  using assms by (auto simp add: verify_zkproof_def)

lemma verify_zkproof_verdict:
  assumes "active_sessions st (zreq_session_id request) = Some sess"
    and "s_challenge sess = zreq_challenge request"
    and "zreq_public_inputs request \<noteq> []"
    and "zreq_public_inputs request ! 0 = s_minimum_age sess"
    and "server_verify_proof (zksnark_verifier st)
           \<lparr> pd_proof = zreq_proof request, pd_public_inputs = zreq_public_inputs request,
             pd_challenge = zreq_challenge request, pd_timestamp = t1 \<rparr>
           (zreq_challenge request) = (verdict, verifier')"
  shows "verify_zkproof st request t1 t2 =
           (Inr \<lparr> is_valid = verdict,
                  message = (if verdict then msg_success else msg_invalid),
                  details = \<lparr> vd_zkp_type = ''zk-SNARKs'',
                              vd_proof_verified = verdict,
                              vd_server_learned_age = False,
                              vd_minimum_age_required = s_minimum_age sess,
                              vd_cryptographic_security = ''Bilinear pairings on elliptic curves'',
                              vd_session_id = zreq_session_id request \<rparr> \<rparr>,
            st\<lparr> zksnark_verifier := verifier',
                 active_sessions := (active_sessions st)(zreq_session_id request \<mapsto>
                    sess\<lparr> s_status := ''completed'', s_result := Some verdict,
                          s_verified_at := Some t2 \<rparr>) \<rparr>)"
  using assms by (simp add: verify_zkproof_def Let_def)

lemma server_verify_proof_timestamp:
  "server_verify_proof v (pd\<lparr>pd_timestamp := t\<rparr>) ch = server_verify_proof v pd ch"
  by (simp add: server_verify_proof_def Let_def split: option.splits)

lemma server_verify_proof_no_points:
  "fst (server_verify_proof v (pd\<lparr>pd_proof := Map.empty\<rparr>) ch) = False"
  by (simp add: server_verify_proof_def Let_def)

lemma msg_distinct: "msg_success \<noteq> msg_invalid"
  by (simp add: msg_success_def msg_invalid_def)


section \<open>Replay\<close>

lemma server_verify_proof_missing_points:
  assumes "active_challenges v ch = Some flag" and "pd_proof pd ''a'' = None"
  shows "server_verify_proof v pd ch
           = (False, v\<lparr>active_challenges := (active_challenges v)(ch := None)\<rparr>)"
  using assms by (simp add: server_verify_proof_def Let_def)

text \<open>
  C5 (as amended). For a pending session whose challenge is active, a request with the
  public inputs \<open>[minimum_age, 1]\<close> of the session and three points of the right
  shape is accepted on its first submission. The second submission of the same request
  is rejected, but with no error of its own: the server returns the ordinary response
  with \<open>is_valid\<close> false and the message "Invalid proof", the very response that a
  request without proof points gets on a fresh session.
\<close>

theorem replay_rejected_as_invalid_proof:
  assumes sess: "active_sessions st (zreq_session_id request) = Some sess"
    and chal: "s_challenge sess = zreq_challenge request"
    and inputs: "zreq_public_inputs request = [s_minimum_age sess, 1]"
    and nonneg: "0 \<le> s_minimum_age sess"
    and active: "active_challenges (zksnark_verifier st) (zreq_challenge request) = Some flag"
    and pa: "zreq_proof request ''a'' = Some pa" and va: "is_valid_g1_point pa"
    and pb: "zreq_proof request ''b'' = Some pb" and vb: "is_valid_g2_point pb"
    and pc: "zreq_proof request ''c'' = Some pc" and vc: "is_valid_g1_point pc"
  shows "\<exists>r1 r2.
           fst (verify_zkproof st request t1 t2) = Inr r1
           \<and> is_valid r1 \<and> message r1 = msg_success
           \<and> fst (verify_zkproof (snd (verify_zkproof st request t1 t2)) request t3 t4) = Inr r2
           \<and> \<not> is_valid r2 \<and> message r2 = msg_invalid
           \<and> fst (verify_zkproof st (request\<lparr>zreq_proof := Map.empty\<rparr>) t1 t2) = Inr r2"
proof -
  let ?c = "zreq_challenge request"
  let ?sid = "zreq_session_id request"
  let ?v = "zksnark_verifier st"
  let ?v' = "?v\<lparr>active_challenges := (active_challenges ?v)(?c := None)\<rparr>"
  let ?pd = "\<lambda>t. \<lparr> pd_proof = zreq_proof request,
                     pd_public_inputs = zreq_public_inputs request,
                     pd_challenge = ?c, pd_timestamp = t \<rparr>"
  let ?resp = "\<lambda>verdict. \<lparr> is_valid = verdict,
                  message = (if verdict then msg_success else msg_invalid),
                  details = \<lparr> vd_zkp_type = ''zk-SNARKs'',
                              vd_proof_verified = verdict,
                              vd_server_learned_age = False,
                              vd_minimum_age_required = s_minimum_age sess,
                              vd_cryptographic_security = ''Bilinear pairings on elliptic curves'',
                              vd_session_id = ?sid \<rparr> \<rparr>"
  let ?sess' = "sess\<lparr> s_status := ''completed'', s_result := Some True,
                        s_verified_at := Some t2 \<rparr>"
  let ?st1 = "st\<lparr> zksnark_verifier := ?v',
                   active_sessions := (active_sessions st)(?sid \<mapsto> ?sess') \<rparr>"
  have ne: "zreq_public_inputs request \<noteq> []"
    and hd: "zreq_public_inputs request ! 0 = s_minimum_age sess"
    using inputs by simp_all
  have srv1: "server_verify_proof ?v (?pd t1) ?c = (True, ?v')"
    by (rule server_verify_proof_accepts
              [where minimum_age = "s_minimum_age sess" and pa = pa and pb = pb and pc = pc
                 and flag = flag])
       (use active pa pb pc inputs nonneg va vb vc in simp_all)
  have first: "verify_zkproof st request t1 t2 = (Inr (?resp True), ?st1)"
    using verify_zkproof_verdict [OF sess chal ne hd srv1, of t2] by simp
  have sess1: "active_sessions ?st1 ?sid = Some ?sess'"
    by simp
  have srv2: "server_verify_proof (zksnark_verifier ?st1) (?pd t3) ?c = (False, ?v')"
    by (simp add: server_verify_proof_inactive)
  have second: "fst (verify_zkproof ?st1 request t3 t4) = Inr (?resp False)"
    using verify_zkproof_verdict [OF sess1 _ ne _ srv2, of t4] chal hd by simp
  let ?bad = "request\<lparr>zreq_proof := Map.empty\<rparr>"
  have srv3: "server_verify_proof ?v
                \<lparr> pd_proof = zreq_proof ?bad, pd_public_inputs = zreq_public_inputs ?bad,
                  pd_challenge = zreq_challenge ?bad, pd_timestamp = t1 \<rparr>
                (zreq_challenge ?bad) = (False, ?v')"
    using server_verify_proof_missing_points [OF active] by simp
  have third: "fst (verify_zkproof st ?bad t1 t2) = Inr (?resp False)"
    using verify_zkproof_verdict [OF _ _ _ _ srv3, of sess t2] sess chal ne hd by simp
  from first second third show ?thesis
    by simp
qed


text \<open>The state after the challenge was requested.\<close>

lemma server_pending18_session: "active_sessions server_pending18 ''s1'' = Some session18"
  by (simp add: server_pending18_def request_challenge_def generate_challenge_def session18_def
        Let_def)

lemma server_pending18_challenge:
  "active_challenges (zksnark_verifier server_pending18) ''c1'' = Some True"
  by (simp add: server_pending18_def request_challenge_def generate_challenge_def Let_def)

text \<open>
  C5 as stated fails: after the accepted first submission, the second submission of
  the same request gets, field by field, the response that a request with junk for
  points gets. No \<open>HTTPException\<close> is raised and nothing says that the session was
  completed.
\<close>

theorem replay_no_distinct_error_counterexample:
  "fst (verify_zkproof server_pending18 request18 ''t1'' ''t2'')
     = Inr \<lparr> is_valid = True, message = msg_success,
              details = \<lparr> vd_zkp_type = ''zk-SNARKs'', vd_proof_verified = True,
                          vd_server_learned_age = False, vd_minimum_age_required = 18,
                          vd_cryptographic_security = ''Bilinear pairings on elliptic curves'',
                          vd_session_id = ''s1'' \<rparr> \<rparr>
   \<and> fst (verify_zkproof (snd (verify_zkproof server_pending18 request18 ''t1'' ''t2''))
            request18 ''t3'' ''t4'')
     = Inr \<lparr> is_valid = False, message = msg_invalid,
              details = \<lparr> vd_zkp_type = ''zk-SNARKs'', vd_proof_verified = False,
                          vd_server_learned_age = False, vd_minimum_age_required = 18,
                          vd_cryptographic_security = ''Bilinear pairings on elliptic curves'',
                          vd_session_id = ''s1'' \<rparr> \<rparr>
   \<and> fst (verify_zkproof server_pending18 junk_request18 ''t1'' ''t2'')
     = Inr \<lparr> is_valid = False, message = msg_invalid,
              details = \<lparr> vd_zkp_type = ''zk-SNARKs'', vd_proof_verified = False,
                          vd_server_learned_age = False, vd_minimum_age_required = 18,
                          vd_cryptographic_security = ''Bilinear pairings on elliptic curves'',
                          vd_session_id = ''s1'' \<rparr> \<rparr>"
  by (simp add: verify_zkproof_def server_pending18_session server_pending18_challenge
        session18_def request18_def junk_request18_def server_verify_proof_def verify_proof_def
        is_valid_g1_point_def is_valid_g2_point_def Let_def)

theorem replay_rejected_as_invalid_proof_witness:
  "active_sessions server_pending18 (zreq_session_id request18) = Some session18
   \<and> s_challenge session18 = zreq_challenge request18
   \<and> zreq_public_inputs request18 = [s_minimum_age session18, 1]
   \<and> 0 \<le> s_minimum_age session18
   \<and> active_challenges (zksnark_verifier server_pending18) (zreq_challenge request18) = Some True
   \<and> zreq_proof request18 ''a'' = Some (PList [PInt 13, PInt 26])
   \<and> is_valid_g1_point (PList [PInt 13, PInt 26])
   \<and> zreq_proof request18 ''b'' = Some (PList [PList [PInt 14, PInt 0], PList [PInt 0, PInt 14]])
   \<and> is_valid_g2_point (PList [PList [PInt 14, PInt 0], PList [PInt 0, PInt 14]])
   \<and> zreq_proof request18 ''c'' = Some (PList [PInt 15, PInt 30])
   \<and> is_valid_g1_point (PList [PInt 15, PInt 30])
   \<and> (\<exists>r1 r2.
         fst (verify_zkproof server_pending18 request18 ''t1'' ''t2'') = Inr r1
         \<and> is_valid r1 \<and> message r1 = msg_success
         \<and> fst (verify_zkproof (snd (verify_zkproof server_pending18 request18 ''t1'' ''t2''))
                  request18 ''t3'' ''t4'') = Inr r2
         \<and> \<not> is_valid r2 \<and> message r2 = msg_invalid
         \<and> fst (verify_zkproof server_pending18 (request18\<lparr>zreq_proof := Map.empty\<rparr>)
                  ''t1'' ''t2'') = Inr r2)"
proof -
  have h1: "active_sessions server_pending18 (zreq_session_id request18) = Some session18"
    by (simp add: request18_def server_pending18_session)
  have h2: "s_challenge session18 = zreq_challenge request18"
    by (simp add: request18_def session18_def)
  have h3: "zreq_public_inputs request18 = [s_minimum_age session18, 1]"
    by (simp add: request18_def session18_def)
  have h4: "0 \<le> s_minimum_age session18"
    by (simp add: session18_def)
  have h5: "active_challenges (zksnark_verifier server_pending18) (zreq_challenge request18)
              = Some True"
    by (simp add: request18_def server_pending18_challenge)
  have h6: "zreq_proof request18 ''a'' = Some (PList [PInt 13, PInt 26])"
    by (simp add: request18_def)
  have h7: "is_valid_g1_point (PList [PInt 13, PInt 26])"
    by (simp add: is_valid_g1_point_def)
  have h8: "zreq_proof request18 ''b''
              = Some (PList [PList [PInt 14, PInt 0], PList [PInt 0, PInt 14]])"
    by (simp add: request18_def)
  have h9: "is_valid_g2_point (PList [PList [PInt 14, PInt 0], PList [PInt 0, PInt 14]])"
    by (simp add: is_valid_g2_point_def)
  have h10: "zreq_proof request18 ''c'' = Some (PList [PInt 15, PInt 30])"
    by (simp add: request18_def)
  have h11: "is_valid_g1_point (PList [PInt 15, PInt 30])"
    by (simp add: is_valid_g1_point_def)
  note concl = replay_rejected_as_invalid_proof
                 [OF h1 h2 h3 h4 h5 h6 h7 h8 h9 h10 h11, of "''t1''" "''t2''" "''t3''" "''t4''"]
  from h1 h2 h3 h4 h5 h6 h7 h8 h9 h10 h11 concl show ?thesis
    by (intro conjI)
qed


section \<open>Expiry\<close>

text \<open>The response of \<open>verify_zkproof\<close> does not depend on the clock.\<close>

lemma verify_zkproof_clock:
  "fst (verify_zkproof st request t1 t2) = fst (verify_zkproof st request t1' t2')"
proof -
  have "server_verify_proof v (pd\<lparr>pd_timestamp := t1\<rparr>) ch
          = server_verify_proof v (pd\<lparr>pd_timestamp := t1'\<rparr>) ch" for v pd ch
    by (simp add: server_verify_proof_timestamp)
  from this [of "zksnark_verifier st"
       "\<lparr> pd_proof = zreq_proof request, pd_public_inputs = zreq_public_inputs request,
          pd_challenge = zreq_challenge request, pd_timestamp = t1 \<rparr>" "zreq_challenge request"]
  show ?thesis
    by (simp add: verify_zkproof_def Let_def split: option.splits prod.splits)
qed

text \<open>
  C6 (as amended). A challenge has no time-to-live. Whatever the time \<open>t0\<close> at which
  the challenge was requested and the times \<open>t1\<close>, \<open>t2\<close> read during the
  submission, a first request for that session with the public inputs
  \<open>[minimum_age, 1]\<close>, a threshold that is not negative and three points of the right
  shape is accepted; and in every state the response to a request is the same at all
  times.
\<close>

theorem challenge_never_expires:
  assumes nonneg: "0 \<le> m"
    and pa: "pr ''a'' = Some pa" and va: "is_valid_g1_point pa"
    and pb: "pr ''b'' = Some pb" and vb: "is_valid_g2_point pb"
    and pc: "pr ''c'' = Some pc" and vc: "is_valid_g1_point pc"
  shows "(\<exists>r. fst (verify_zkproof
                    (snd (request_challenge st \<lparr> creq_minimum_age = m \<rparr> ctok stok t0))
                    \<lparr> zreq_proof = pr, zreq_public_inputs = [m, 1],
                      zreq_challenge = ctok, zreq_session_id = stok \<rparr> t1 t2) = Inr r
              \<and> is_valid r \<and> message r = msg_success)
         \<and> fst (verify_zkproof st2 request t1 t2) = fst (verify_zkproof st2 request t1' t2')"
proof -
  let ?st = "snd (request_challenge st \<lparr> creq_minimum_age = m \<rparr> ctok stok t0)"
  let ?req = "\<lparr> zreq_proof = pr, zreq_public_inputs = [m, 1],
                 zreq_challenge = ctok, zreq_session_id = stok \<rparr>"
  let ?sess = "\<lparr> s_challenge = ctok, s_minimum_age = m, s_created_at = t0,
                  s_status = ''pending'', s_result = None, s_verified_at = None \<rparr>"
  let ?v = "zksnark_verifier ?st"
  have sess: "active_sessions ?st (zreq_session_id ?req) = Some ?sess"
    by (simp add: request_challenge_def generate_challenge_def Let_def)
  have active: "active_challenges ?v ctok = Some True"
    by (simp add: request_challenge_def generate_challenge_def Let_def)
  have srv: "server_verify_proof ?v
               \<lparr> pd_proof = zreq_proof ?req, pd_public_inputs = zreq_public_inputs ?req,
                 pd_challenge = zreq_challenge ?req, pd_timestamp = t1 \<rparr> (zreq_challenge ?req)
             = (True, ?v\<lparr>active_challenges := (active_challenges ?v)(ctok := None)\<rparr>)"
    using server_verify_proof_accepts
            [where self = ?v and challenge = ctok and flag = True and minimum_age = m
               and pa = pa and pb = pb and pc = pc
               and pd = "\<lparr> pd_proof = pr, pd_public_inputs = [m, 1],
                            pd_challenge = ctok, pd_timestamp = t1 \<rparr>"]
          active pa pb pc nonneg va vb vc
    by simp
  have "\<exists>r. fst (verify_zkproof ?st ?req t1 t2) = Inr r \<and> is_valid r \<and> message r = msg_success"
    using verify_zkproof_verdict [OF sess _ _ _ srv, of t2] by simp
  with verify_zkproof_clock [of st2 request t1 t2 t1' t2'] show ?thesis
    by blast
qed

text \<open>
  C6 as stated fails: the session was created on 1 January 2024, the proof is submitted
  one year later, and it is accepted.
\<close>

theorem expiry_counterexample:
  "map_option s_created_at (active_sessions server_pending18 ''s1'')
     = Some ''2024-01-01T00:00:00''
   \<and> fst (verify_zkproof server_pending18 request18
            ''2025-01-01T00:00:00'' ''2025-01-01T00:00:01'')
     = Inr \<lparr> is_valid = True, message = msg_success,
              details = \<lparr> vd_zkp_type = ''zk-SNARKs'', vd_proof_verified = True,
                          vd_server_learned_age = False, vd_minimum_age_required = 18,
                          vd_cryptographic_security = ''Bilinear pairings on elliptic curves'',
                          vd_session_id = ''s1'' \<rparr> \<rparr>"
  by (simp add: verify_zkproof_def server_pending18_session server_pending18_challenge
        session18_def request18_def server_verify_proof_def verify_proof_def
        is_valid_g1_point_def is_valid_g2_point_def Let_def)

theorem challenge_never_expires_witness:
  "(0::int) \<le> 18
   \<and> zreq_proof request18 ''a'' = Some (PList [PInt 13, PInt 26])
   \<and> is_valid_g1_point (PList [PInt 13, PInt 26])
   \<and> zreq_proof request18 ''b'' = Some (PList [PList [PInt 14, PInt 0], PList [PInt 0, PInt 14]])
   \<and> is_valid_g2_point (PList [PList [PInt 14, PInt 0], PList [PInt 0, PInt 14]])
   \<and> zreq_proof request18 ''c'' = Some (PList [PInt 15, PInt 30])
   \<and> is_valid_g1_point (PList [PInt 15, PInt 30])
   \<and> (\<exists>r. fst (verify_zkproof
                   (snd (request_challenge server0 \<lparr> creq_minimum_age = 18 \<rparr>
                           ''c1'' ''s1'' ''2024-01-01T00:00:00''))
                   \<lparr> zreq_proof = zreq_proof request18, zreq_public_inputs = [18, 1],
                     zreq_challenge = ''c1'', zreq_session_id = ''s1'' \<rparr>
                   ''2025-01-01T00:00:00'' ''2025-01-01T00:00:01'') = Inr r
             \<and> is_valid r \<and> message r = msg_success)
   \<and> fst (verify_zkproof server_pending18 request18 ''2025-01-01T00:00:00'' ''2025-01-01T00:00:01'')
       = fst (verify_zkproof server_pending18 request18 ''2024-01-01T00:00:01'' ''2024-01-01T00:00:02'')"
proof -
  have h0: "(0::int) \<le> 18"
    by simp
  have h6: "zreq_proof request18 ''a'' = Some (PList [PInt 13, PInt 26])"
    by (simp add: request18_def)
  have h7: "is_valid_g1_point (PList [PInt 13, PInt 26])"
    by (simp add: is_valid_g1_point_def)
  have h8: "zreq_proof request18 ''b''
              = Some (PList [PList [PInt 14, PInt 0], PList [PInt 0, PInt 14]])"
    by (simp add: request18_def)
  have h9: "is_valid_g2_point (PList [PList [PInt 14, PInt 0], PList [PInt 0, PInt 14]])"
    by (simp add: is_valid_g2_point_def)
  have h10: "zreq_proof request18 ''c'' = Some (PList [PInt 15, PInt 30])"
    by (simp add: request18_def)
  have h11: "is_valid_g1_point (PList [PInt 15, PInt 30])"
    by (simp add: is_valid_g1_point_def)
  note concl = challenge_never_expires
                 [OF h0 h6 h7 h8 h9 h10 h11,
                  of server0 "''c1''" "''s1''" "''2024-01-01T00:00:00''"
                     "''2025-01-01T00:00:00''" "''2025-01-01T00:00:01''"
                     server_pending18 request18
                     "''2024-01-01T00:00:01''" "''2024-01-01T00:00:02''"]
  from h0 h6 h7 h8 h9 h10 h11 concl show ?thesis
    by (intro conjI) blast+
qed

section \<open>Threshold binding\<close>

text \<open>
  C7. Let the session of a request record the threshold \<open>minimum_age\<close>. When the
  public inputs of the request are empty or \<open>public_inputs[0]\<close> differs from that
  threshold, \<open>verify_zkproof\<close> raises \<open>HTTPException(400, ...)\<close> and changes
  nothing; so whenever it returns a response at all, and all the more an accepting one,
  \<open>public_inputs[0]\<close> equals the threshold of the session. A proof generated for 18
  carries the public inputs \<open>[18, 1]\<close> and is rejected under a session for 21.
\<close>

theorem threshold_binding:
  assumes "active_sessions st (zreq_session_id request) = Some sess"
  shows "(zreq_public_inputs request = []
            \<or> zreq_public_inputs request ! 0 \<noteq> s_minimum_age sess
          \<longrightarrow> (\<exists>detail. verify_zkproof st request t1 t2
                            = (Inl (HTTPException 400 detail), st)))
         \<and> ((\<exists>resp st'. verify_zkproof st request t1 t2 = (Inr resp, st'))
             \<longrightarrow> zreq_public_inputs request \<noteq> []
                 \<and> zreq_public_inputs request ! 0 = s_minimum_age sess)"
proof -
  have rej: "\<exists>detail. verify_zkproof st request t1 t2 = (Inl (HTTPException 400 detail), st)"
    if "zreq_public_inputs request = []
          \<or> zreq_public_inputs request ! 0 \<noteq> s_minimum_age sess"
    using verify_zkproof_mismatch [OF assms, of t1 t2] that by blast
  have acc: "zreq_public_inputs request \<noteq> []
               \<and> zreq_public_inputs request ! 0 = s_minimum_age sess"
    if ok: "\<exists>resp st'. verify_zkproof st request t1 t2 = (Inr resp, st')"
  proof (rule ccontr)
    assume "\<not> (zreq_public_inputs request \<noteq> []
                 \<and> zreq_public_inputs request ! 0 = s_minimum_age sess)"
    then have "zreq_public_inputs request = []
                 \<or> zreq_public_inputs request ! 0 \<noteq> s_minimum_age sess"
      by blast
    from rej [OF this] ok show False
      by auto
  qed
  from rej acc show ?thesis
    by blast
qed


text \<open>The state after a challenge was requested for the threshold 21.\<close>

lemma server_pending21_session: "active_sessions server_pending21 ''s1'' = Some session21"
  by (simp add: server_pending21_def request_challenge_def generate_challenge_def session21_def
        session18_def Let_def)

theorem threshold_binding_witness:
  "active_sessions server_pending21 (zreq_session_id request18) = Some session21
   \<and> zreq_public_inputs request18 ! 0 = 18 \<and> s_minimum_age session21 = 21
   \<and> (\<exists>detail. verify_zkproof server_pending21 request18 ''t1'' ''t2''
                    = (Inl (HTTPException 400 detail), server_pending21))
   \<and> active_sessions server_pending18 (zreq_session_id request18) = Some session18
   \<and> (\<exists>resp st'. verify_zkproof server_pending18 request18 ''t1'' ''t2'' = (Inr resp, st'))
   \<and> zreq_public_inputs request18 \<noteq> []
   \<and> zreq_public_inputs request18 ! 0 = s_minimum_age session18"
proof -
  have s21: "active_sessions server_pending21 (zreq_session_id request18) = Some session21"
    by (simp add: request18_def server_pending21_session)
  have s18: "active_sessions server_pending18 (zreq_session_id request18) = Some session18"
    by (simp add: request18_def server_pending18_session)
  have in18: "zreq_public_inputs request18 ! 0 = 18"
    by (simp add: request18_def)
  have m21: "s_minimum_age session21 = 21"
    by (simp add: session21_def)
  have differ: "zreq_public_inputs request18 = []
                  \<or> zreq_public_inputs request18 ! 0 \<noteq> s_minimum_age session21"
    using in18 m21 by simp
  have resp: "\<exists>resp st'. verify_zkproof server_pending18 request18 ''t1'' ''t2'' = (Inr resp, st')"
    by (simp add: verify_zkproof_def server_pending18_session session18_def request18_def
          Let_def split: prod.splits)
  from threshold_binding [OF s21, of "''t1''" "''t2''"] differ
  have rejected: "\<exists>detail. verify_zkproof server_pending21 request18 ''t1'' ''t2''
                              = (Inl (HTTPException 400 detail), server_pending21)"
    by blast
  from threshold_binding [OF s18, of "''t1''" "''t2''"] resp
  have bound: "zreq_public_inputs request18 \<noteq> []
                 \<and> zreq_public_inputs request18 ! 0 = s_minimum_age session18"
    by blast
  from s21 in18 m21 rejected s18 resp bound show ?thesis
    by (intro conjI) blast+
qed

text \<open>The rejection of the proof for 18 under the session for 21, in full.\<close>

lemma threshold_mismatch_detail:
  "verify_zkproof server_pending21 request18 ''t1'' ''t2''
     = (Inl (HTTPException 400 ''Minimum age mismatch''), server_pending21)"
  by (simp add: verify_zkproof_def server_pending21_session session21_def session18_def
        request18_def)

text \<open>
  The binding is on the public inputs that are submitted. The three points of
  \<open>request18\<close> carry no threshold themselves: sent with the public inputs
  \<open>[21, 1]\<close>, they are accepted under the session for 21.
\<close>

lemma threshold_points_relabelled:
  "fst (verify_zkproof server_pending21 (request18\<lparr> zreq_public_inputs := [21, 1] \<rparr>)
          ''t1'' ''t2'')
     = Inr \<lparr> is_valid = True, message = msg_success,
              details = \<lparr> vd_zkp_type = ''zk-SNARKs'', vd_proof_verified = True,
                          vd_server_learned_age = False, vd_minimum_age_required = 21,
                          vd_cryptographic_security = ''Bilinear pairings on elliptic curves'',
                          vd_session_id = ''s1'' \<rparr> \<rparr>"
  by (simp add: verify_zkproof_def server_pending21_def request_challenge_def
        generate_challenge_def request18_def server_verify_proof_def
        verify_proof_def is_valid_g1_point_def is_valid_g2_point_def Let_def)

end
